theory Spec2Isabelle
  imports Main "HOL-Library.AList"
begin

section \<open>Validation of wind energy software metadata documents\<close>

text \<open>
  The module \<^verbatim>\<open>metadata_model.py\<close> declares three classes derived from the validation
  library's \<^verbatim>\<open>BaseModel\<close>: \<^verbatim>\<open>Author\<close>, \<^verbatim>\<open>Distribution\<close> and
  \<^verbatim>\<open>WindEnergySoftwareMetadataDocument\<close>. The classes contain field declarations only;
  constructing an instance from a mapping runs the library's validators for the declared
  types, in the order of declaration. This theory embeds the three classes as records and
  the validators their annotations select as functions on untyped input values.

  The library semantics embedded here is that of the current major version of the library
  in its default (lax) mode with the default model configuration, since no class of the
  module declares a configuration of its own:
  \<^item> a field without a default is required, also when its annotation admits \<^verbatim>\<open>None\<close>;
  \<^item> \<^verbatim>\<open>str\<close> accepts text only (numbers are not converted);
  \<^item> \<^verbatim>\<open>Literal[...]\<close> accepts exactly the listed texts;
  \<^item> \<^verbatim>\<open>T | None\<close> accepts \<^verbatim>\<open>None\<close> and otherwise defers to the validator of \<^verbatim>\<open>T\<close>;
  \<^item> \<^verbatim>\<open>list[T]\<close> validates every element and reports every element's errors under
    the element's index;
  \<^item> a model validates every declared field, collects the errors of all of them, and
    fails when any was collected; keys of the input that are no declared field are not
    looked at;
  \<^item> instances are not frozen.
\<close>

subsection \<open>Input values\<close>

text \<open>A calendar date, \<^verbatim>\<open>datetime.date\<close>.\<close>

datatype date = Date (year: nat) (month: nat) (day: nat)

text \<open>
  The untyped values of an input mapping, as a deserialised text document holds them:
  \<^verbatim>\<open>None\<close>, booleans, integers, floating-point numbers (mantissa and binary exponent;
  no validator used here inspects them), text, dates (a YAML loader produces them, and so
  does serialisation in Python mode), lists and dictionaries. A dictionary is an
  association list that is read with \<^const>\<open>map_of\<close>.
\<close>

datatype raw =
    RNone
  | RBool bool
  | RInt int
  | RFloat int int
  | RStr string
  | RDate date
  | RList "raw list"
  | RDict "(string \<times> raw) list"

subsection \<open>Errors\<close>

text \<open>
  An error of the library is located by a path of keys and list indices and carries a
  type. The types are the library's own: \<open>missing\<close> (a required field is absent),
  \<open>string_type\<close>, \<open>date_type\<close>, \<open>list_type\<close> and \<open>model_type\<close> (the value has not the
  declared type), \<open>date_parsing\<close> (a text or number that is no date; it stands for the
  library's family of date parsing errors) and \<open>literal_error\<close> (the value is none of the
  texts a \<^verbatim>\<open>Literal\<close> lists).
\<close>

datatype loc_item = Key string | Idx nat

datatype error_type =
    missing
  | string_type
  | date_type
  | date_parsing
  | list_type
  | model_type
  | literal_error

type_synonym line_error = "loc_item list \<times> error_type"

type_synonym 'a result = "line_error list + 'a"

fun errs :: "'a result \<Rightarrow> line_error list" where
  "errs (Inl es) = es"
| "errs (Inr _) = []"

text \<open>
  Combining the result for the fields validated so far with the result of the next field:
  the errors of both are kept, in order, and a value is built only when neither failed.
\<close>

fun ap :: "('a \<Rightarrow> 'b) result \<Rightarrow> 'a result \<Rightarrow> 'b result" where
  "ap (Inr g) (Inr a) = Inr (g a)"
| "ap (Inr g) (Inl e) = Inl e"
| "ap (Inl e1) (Inr a) = Inl e1"
| "ap (Inl e1) (Inl e2) = Inl (e1 @ e2)"

text \<open>An error found below a key or an index has that key or index put before its path.\<close>

definition at_loc :: "loc_item \<Rightarrow> 'a result \<Rightarrow> 'a result" where
  "at_loc l r = (case r of Inl es \<Rightarrow> Inl (map (\<lambda>(p, t). (l # p, t)) es) | Inr x \<Rightarrow> Inr x)"

subsection \<open>Validators of the declared types\<close>

definition str_validator :: "raw \<Rightarrow> string result" where
  "str_validator v = (case v of RStr s \<Rightarrow> Inr s | _ \<Rightarrow> Inl [([], string_type)])"

definition literal_validator :: "string list \<Rightarrow> raw \<Rightarrow> string result" where
  "literal_validator expected v =
     (case v of
        RStr s \<Rightarrow> if s \<in> set expected then Inr s else Inl [([], literal_error)]
      | _ \<Rightarrow> Inl [([], literal_error)])"

definition nullable :: "(raw \<Rightarrow> 'a result) \<Rightarrow> raw \<Rightarrow> 'a option result" where
  "nullable inner v =
     (case v of
        RNone \<Rightarrow> Inr None
      | _ \<Rightarrow> (case inner v of Inl es \<Rightarrow> Inl es | Inr x \<Rightarrow> Inr (Some x)))"

text \<open>
  A date is accepted as it is. Text and numbers go through the library's date parser,
  which is not part of the module and is a parameter \<open>pd\<close> of the model; every other
  value is no date.
\<close>

definition date_validator :: "(raw \<Rightarrow> date option) \<Rightarrow> raw \<Rightarrow> date result" where
  "date_validator pd v =
     (case v of
        RDate d \<Rightarrow> Inr d
      | RNone \<Rightarrow> Inl [([], date_type)]
      | RList _ \<Rightarrow> Inl [([], date_type)]
      | RDict _ \<Rightarrow> Inl [([], date_type)]
      | _ \<Rightarrow> (case pd v of Some d \<Rightarrow> Inr d | None \<Rightarrow> Inl [([], date_parsing)]))"

fun validate_items :: "(raw \<Rightarrow> 'a result) \<Rightarrow> nat \<Rightarrow> raw list \<Rightarrow> 'a list result" where
  "validate_items val i [] = Inr []"
| "validate_items val i (x # xs) =
     ap (ap (Inr Cons) (at_loc (Idx i) (val x))) (validate_items val (Suc i) xs)"

definition list_validator :: "(raw \<Rightarrow> 'a result) \<Rightarrow> raw \<Rightarrow> 'a list result" where
  "list_validator val v =
     (case v of RList xs \<Rightarrow> validate_items val 0 xs | _ \<Rightarrow> Inl [([], list_type)])"

text \<open>
  One declared field of a model: the key is looked up in the input dictionary; an absent
  key yields the default when the declaration has one and the error \<open>missing\<close> otherwise;
  a present key has its value validated, with errors located under the key.
\<close>

definition field :: "(string \<times> raw) list \<Rightarrow> string \<Rightarrow> (raw \<Rightarrow> 'a result) \<Rightarrow> 'a option \<Rightarrow> 'a result" where
  "field d k val dflt =
     (case map_of d k of
        None \<Rightarrow> (case dflt of None \<Rightarrow> Inl [([Key k], missing)] | Some x \<Rightarrow> Inr x)
      | Some v \<Rightarrow> at_loc (Key k) (val v))"

subsection \<open>The classes\<close>

record Author =
  name :: string
  orcid :: string
  affiliation :: string

record Distribution =
  distribution_platform :: string
  url :: string

text \<open>
  The fields of the root class in the order of their declaration. Three names of the
  source are taken in Isabelle (\<open>id\<close>, \<open>function\<close>) or by \<^typ>\<open>Author\<close> (\<open>name\<close>) and carry
  the suffix \<open>_doc\<close>.
\<close>

record WindEnergySoftwareMetadataDocument =
  id_doc :: string
  name_doc :: string
  description :: string
  latest_release_version :: string
  latest_release_date :: date
  license :: string
  source_access_right :: string
  authors :: "Author list"
  programming_languages :: "string list"
  supported_platforms :: "string list"
  resource_type :: string
  resource_subtype :: string
  repository_url :: string
  documentation_url :: string
  distributions :: "Distribution list"
  function_doc :: string
  time_domain :: string
  representation_level :: string
  turbine_representation :: "string option"
  location :: "string option"
  input_description :: string
  output_description :: string

definition Author_validate :: "raw \<Rightarrow> Author result" where
  "Author_validate v =
     (case v of
        RDict d \<Rightarrow>
          ap (ap (ap (Inr Author.make)
            (field d ''name'' str_validator None))
            (field d ''orcid'' str_validator None))
            (field d ''affiliation'' str_validator None)
      | _ \<Rightarrow> Inl [([], model_type)])"

definition Distribution_validate :: "raw \<Rightarrow> Distribution result" where
  "Distribution_validate v =
     (case v of
        RDict d \<Rightarrow>
          ap (ap (Inr Distribution.make)
            (field d ''distribution_platform'' str_validator None))
            (field d ''url'' str_validator None)
      | _ \<Rightarrow> Inl [([], model_type)])"

definition model_fields ::
  "(raw \<Rightarrow> date option) \<Rightarrow> (string \<times> raw) list \<Rightarrow> WindEnergySoftwareMetadataDocument result" where
  "model_fields pd d =
     ap (ap (ap (ap (ap (ap (ap (ap (ap (ap (ap (ap (ap (ap (ap (ap (ap (ap (ap (ap (ap (ap
       (Inr WindEnergySoftwareMetadataDocument.make)
       (field d ''id'' str_validator None))
       (field d ''name'' str_validator None))
       (field d ''description'' str_validator None))
       (field d ''latest_release_version'' str_validator None))
       (field d ''latest_release_date'' (date_validator pd) None))
       (field d ''license'' str_validator None))
       (field d ''source_access_right'' (literal_validator [''open'', ''closed'']) None))
       (field d ''authors'' (list_validator Author_validate) None))
       (field d ''programming_languages'' (list_validator str_validator) None))
       (field d ''supported_platforms'' (list_validator str_validator) None))
       (field d ''resource_type'' (literal_validator [''software'']) (Some ''software'')))
       (field d ''resource_subtype''
          (literal_validator [''model'', ''analysis'', ''optimisation'']) None))
       (field d ''repository_url'' str_validator None))
       (field d ''documentation_url'' str_validator None))
       (field d ''distributions'' (list_validator Distribution_validate) None))
       (field d ''function'' str_validator None))
       (field d ''time_domain'' (literal_validator [''steady'', ''dynamic'']) None))
       (field d ''representation_level'' (literal_validator [''wind_farm'', ''turbine'']) None))
       (field d ''turbine_representation''
          (nullable (literal_validator
             [''actuator'', ''bem'', ''vortex_method'', ''geometry_resolved''])) None))
       (field d ''location'' (nullable (literal_validator [''onshore'', ''offshore''])) None))
       (field d ''input_description'' str_validator None))
       (field d ''output_description'' str_validator None)"

text \<open>
  Validation of an input against the root class,
  \<^verbatim>\<open>WindEnergySoftwareMetadataDocument.model_validate\<close>.
\<close>

definition model_validate ::
  "(raw \<Rightarrow> date option) \<Rightarrow> raw \<Rightarrow> WindEnergySoftwareMetadataDocument result" where
  "model_validate pd v =
     (case v of RDict d \<Rightarrow> model_fields pd d | _ \<Rightarrow> Inl [([], model_type)])"

subsection \<open>Violations, field names\<close>

text \<open>
  Every violation of an input dictionary: the errors that each declared field yields when
  it is validated on its own, in the order of declaration.
\<close>

definition violations :: "(raw \<Rightarrow> date option) \<Rightarrow> (string \<times> raw) list \<Rightarrow> line_error list" where
  "violations pd d =
     errs (field d ''id'' str_validator None) @
     errs (field d ''name'' str_validator None) @
     errs (field d ''description'' str_validator None) @
     errs (field d ''latest_release_version'' str_validator None) @
     errs (field d ''latest_release_date'' (date_validator pd) None) @
     errs (field d ''license'' str_validator None) @
     errs (field d ''source_access_right'' (literal_validator [''open'', ''closed'']) None) @
     errs (field d ''authors'' (list_validator Author_validate) None) @
     errs (field d ''programming_languages'' (list_validator str_validator) None) @
     errs (field d ''supported_platforms'' (list_validator str_validator) None) @
     errs (field d ''resource_type'' (literal_validator [''software'']) (Some ''software'')) @
     errs (field d ''resource_subtype''
        (literal_validator [''model'', ''analysis'', ''optimisation'']) None) @
     errs (field d ''repository_url'' str_validator None) @
     errs (field d ''documentation_url'' str_validator None) @
     errs (field d ''distributions'' (list_validator Distribution_validate) None) @
     errs (field d ''function'' str_validator None) @
     errs (field d ''time_domain'' (literal_validator [''steady'', ''dynamic'']) None) @
     errs (field d ''representation_level'' (literal_validator [''wind_farm'', ''turbine'']) None) @
     errs (field d ''turbine_representation''
        (nullable (literal_validator
           [''actuator'', ''bem'', ''vortex_method'', ''geometry_resolved''])) None) @
     errs (field d ''location'' (nullable (literal_validator [''onshore'', ''offshore''])) None) @
     errs (field d ''input_description'' str_validator None) @
     errs (field d ''output_description'' str_validator None)"

text \<open>The names of the fields declared without a default, in the order of declaration.\<close>

definition required_fields :: "string list" where
  "required_fields =
     [''id'', ''name'', ''description'', ''latest_release_version'', ''latest_release_date'',
      ''license'', ''source_access_right'', ''authors'', ''programming_languages'',
      ''supported_platforms'', ''resource_subtype'', ''repository_url'',
      ''documentation_url'', ''distributions'', ''function'', ''time_domain'',
      ''representation_level'', ''turbine_representation'', ''location'',
      ''input_description'', ''output_description'']"

text \<open>The names of all declared fields of the root class.\<close>

definition schema_fields :: "string list" where
  "schema_fields = ''resource_type'' # required_fields"

text \<open>The names of the fields declared as \<^verbatim>\<open>str\<close>.\<close>

definition text_fields :: "string list" where
  "text_fields =
     [''id'', ''name'', ''description'', ''latest_release_version'', ''license'',
      ''repository_url'', ''documentation_url'', ''function'', ''input_description'',
      ''output_description'']"

subsection \<open>Serialisation\<close>

text \<open>
  Serialisation of a record to a dictionary, the library's \<^verbatim>\<open>model_dump\<close> in its
  default mode: every declared field is written, in the order of declaration; text stays
  text, a date stays a date, a nested record becomes a dictionary and an absent optional
  value becomes \<^verbatim>\<open>None\<close>.
\<close>

definition Author_dump :: "Author \<Rightarrow> raw" where
  "Author_dump a =
     RDict [(''name'', RStr (name a)), (''orcid'', RStr (orcid a)),
            (''affiliation'', RStr (affiliation a))]"

definition Distribution_dump :: "Distribution \<Rightarrow> raw" where
  "Distribution_dump x =
     RDict [(''distribution_platform'', RStr (distribution_platform x)), (''url'', RStr (url x))]"

definition optional_dump :: "string option \<Rightarrow> raw" where
  "optional_dump x = (case x of None \<Rightarrow> RNone | Some s \<Rightarrow> RStr s)"

definition model_dump :: "WindEnergySoftwareMetadataDocument \<Rightarrow> (string \<times> raw) list" where
  "model_dump r =
     [(''id'', RStr (id_doc r)),
      (''name'', RStr (name_doc r)),
      (''description'', RStr (description r)),
      (''latest_release_version'', RStr (latest_release_version r)),
      (''latest_release_date'', RDate (latest_release_date r)),
      (''license'', RStr (license r)),
      (''source_access_right'', RStr (source_access_right r)),
      (''authors'', RList (map Author_dump (authors r))),
      (''programming_languages'', RList (map RStr (programming_languages r))),
      (''supported_platforms'', RList (map RStr (supported_platforms r))),
      (''resource_type'', RStr (resource_type r)),
      (''resource_subtype'', RStr (resource_subtype r)),
      (''repository_url'', RStr (repository_url r)),
      (''documentation_url'', RStr (documentation_url r)),
      (''distributions'', RList (map Distribution_dump (distributions r))),
      (''function'', RStr (function_doc r)),
      (''time_domain'', RStr (time_domain r)),
      (''representation_level'', RStr (representation_level r)),
      (''turbine_representation'', optional_dump (turbine_representation r)),
      (''location'', optional_dump (location r)),
      (''input_description'', RStr (input_description r)),
      (''output_description'', RStr (output_description r))]"

subsection \<open>Assignment to the fields of a constructed record\<close>













subsection \<open>An example document\<close>

text \<open>
  A complete input with a model of a single turbine, blade-element momentum, no location,
  and the record that validation builds from it.
\<close>

definition example_input :: "(string \<times> raw) list" where
  "example_input =
     [(''id'', RStr ''wesm-0001''),
      (''name'', RStr ''AeroSim''),
      (''description'', RStr ''Aeroelastic turbine simulation''),
      (''latest_release_version'', RStr ''1.2.0''),
      (''latest_release_date'', RDate (Date 2024 1 15)),
      (''license'', RStr ''Apache-2.0''),
      (''source_access_right'', RStr ''open''),
      (''authors'', RList
         [RDict [(''name'', RStr ''A. Author''), (''orcid'', RStr ''0000-0002-1825-0097''),
                 (''affiliation'', RStr ''Institute'')]]),
      (''programming_languages'', RList [RStr ''Python'']),
      (''supported_platforms'', RList [RStr ''Linux'', RStr ''Windows'']),
      (''resource_subtype'', RStr ''model''),
      (''repository_url'', RStr ''https://example.org/repo''),
      (''documentation_url'', RStr ''https://example.org/docs''),
      (''distributions'', RList
         [RDict [(''distribution_platform'', RStr ''PyPI''),
                 (''url'', RStr ''https://example.org/pypi'')]]),
      (''function'', RStr ''Load simulation''),
      (''time_domain'', RStr ''dynamic''),
      (''representation_level'', RStr ''turbine''),
      (''turbine_representation'', RStr ''bem''),
      (''location'', RNone),
      (''input_description'', RStr ''Turbine definition''),
      (''output_description'', RStr ''Load time series'')]"

definition example_document :: WindEnergySoftwareMetadataDocument where
  "example_document =
     \<lparr>id_doc = ''wesm-0001'',
      name_doc = ''AeroSim'',
      description = ''Aeroelastic turbine simulation'',
      latest_release_version = ''1.2.0'',
      latest_release_date = Date 2024 1 15,
      license = ''Apache-2.0'',
      source_access_right = ''open'',
      authors = [\<lparr>name = ''A. Author'', orcid = ''0000-0002-1825-0097'',
                  affiliation = ''Institute''\<rparr>],
      programming_languages = [''Python''],
      supported_platforms = [''Linux'', ''Windows''],
      resource_type = ''software'',
      resource_subtype = ''model'',
      repository_url = ''https://example.org/repo'',
      documentation_url = ''https://example.org/docs'',
      distributions = [\<lparr>distribution_platform = ''PyPI'',
                        url = ''https://example.org/pypi''\<rparr>],
      function_doc = ''Load simulation'',
      time_domain = ''dynamic'',
      representation_level = ''turbine'',
      turbine_representation = Some ''bem'',
      location = None,
      input_description = ''Turbine definition'',
      output_description = ''Load time series''\<rparr>"

text \<open>
  A list of authors whose first element is no dictionary and whose third element lacks
  \<open>orcid\<close>, and a list of distributions with an error in each element.
\<close>

definition three_authors :: "raw list" where
  "three_authors =
     [RInt 7,
      RDict [(''name'', RStr ''A. Author''), (''orcid'', RStr ''0000-0002-1825-0097''),
             (''affiliation'', RStr ''Institute'')],
      RDict [(''name'', RStr ''B. Author''), (''affiliation'', RStr ''Institute'')]]"

definition two_distributions :: "raw list" where
  "two_distributions =
     [RDict [(''distribution_platform'', RStr ''PyPI'')],
      RDict [(''url'', RNone)]]"

text \<open>The example input with two keys that the schema does not name.\<close>

definition input_with_extra_keys :: "(string \<times> raw) list" where
  "input_with_extra_keys =
     (''homepage'', RStr ''https://example.org'') # example_input @ [(''stars'', RInt 5)]"



text \<open>The date parser that accepts nothing: only date values are dates.\<close>

definition no_parse :: "raw \<Rightarrow> date option" where
  "no_parse v = None"

text \<open>A result never fails with an empty list of errors.\<close>

definition proper :: "'a result \<Rightarrow> bool" where
  "proper r = (r \<noteq> Inl [])"

subsection \<open>Combining results\<close>

lemma errs_ap: "errs (ap f x) = errs f @ errs x"
  by (cases f; cases x) simp_all

lemma ap_eq_Inr: "ap f x = Inr y \<longleftrightarrow> (\<exists>g a. f = Inr g \<and> x = Inr a \<and> y = g a)"
  by (cases f; cases x) auto

lemma errs_Nil_Inr: "errs r = [] \<and> r \<noteq> Inl [] \<longleftrightarrow> (\<exists>x. r = Inr x)"
  by (cases r) auto

lemma in_errs_Inl: "e \<in> set (errs r) \<Longrightarrow> \<exists>es. r = Inl es \<and> e \<in> set es"
  by (cases r) auto

lemma errs_at_loc: "errs (at_loc l r) = map (\<lambda>(p, t). (l # p, t)) (errs r)"
  by (cases r) (simp_all add: at_loc_def)

lemma proper_ap: "proper f \<Longrightarrow> proper x \<Longrightarrow> proper (ap f x)"
  by (cases f; cases x) (simp_all add: proper_def)

lemma proper_at_loc: "proper r \<Longrightarrow> proper (at_loc l r)"
  by (cases r) (simp_all add: proper_def at_loc_def)

lemma proper_Inr: "proper (Inr x)"
  by (simp add: proper_def)

lemma proper_str_validator: "proper (str_validator v)"
  by (cases v) (simp_all add: proper_def str_validator_def)

lemma proper_literal_validator: "proper (literal_validator ex v)"
  by (cases v) (simp_all add: proper_def literal_validator_def)

lemma proper_nullable: "proper (inner v) \<Longrightarrow> proper (nullable inner v)"
  by (cases v; cases "inner v") (simp_all add: proper_def nullable_def)

lemma proper_date_validator: "proper (date_validator pd v)"
  by (cases v; cases "pd v") (simp_all add: proper_def date_validator_def)

lemma proper_validate_items: "(\<And>v. proper (val v)) \<Longrightarrow> proper (validate_items val i xs)"
  by (induction xs arbitrary: i) (simp_all add: proper_Inr proper_ap proper_at_loc)

lemma proper_list_validator: "(\<And>v. proper (val v)) \<Longrightarrow> proper (list_validator val v)"
  by (cases v) (simp_all add: list_validator_def proper_validate_items, simp_all add: proper_def)

lemma proper_field: "(\<And>v. proper (val v)) \<Longrightarrow> proper (field d k val dflt)"
  by (simp add: field_def proper_at_loc proper_Inr split: option.splits) (simp add: proper_def)

lemma proper_Author_validate: "proper (Author_validate v)"
  by (cases v) (simp_all add: Author_validate_def proper_ap proper_Inr proper_field proper_str_validator, simp_all add: proper_def)

lemma proper_Distribution_validate: "proper (Distribution_validate v)"
  by (cases v) (simp_all add: Distribution_validate_def proper_ap proper_Inr proper_field proper_str_validator, simp_all add: proper_def)

lemma proper_model_fields: "proper (model_fields pd d)"
  unfolding model_fields_def
  by (intro proper_ap proper_Inr proper_field proper_str_validator proper_literal_validator
      proper_nullable proper_date_validator proper_list_validator proper_Author_validate
      proper_Distribution_validate)

lemma proper_cases: "proper r \<Longrightarrow> (errs r = [] \<and> (\<exists>x. r = Inr x)) \<or> (errs r \<noteq> [] \<and> r = Inl (errs r))"
  by (cases r) (simp_all add: proper_def)

lemma model_fields_Inr_iff:
  "model_fields pd d = Inr r \<longleftrightarrow>
     field d ''id'' str_validator None = Inr (id_doc r) \<and>
     field d ''name'' str_validator None = Inr (name_doc r) \<and>
     field d ''description'' str_validator None = Inr (description r) \<and>
     field d ''latest_release_version'' str_validator None = Inr (latest_release_version r) \<and>
     field d ''latest_release_date'' (date_validator pd) None = Inr (latest_release_date r) \<and>
     field d ''license'' str_validator None = Inr (license r) \<and>
     field d ''source_access_right'' (literal_validator [''open'', ''closed'']) None
       = Inr (source_access_right r) \<and>
     field d ''authors'' (list_validator Author_validate) None = Inr (authors r) \<and>
     field d ''programming_languages'' (list_validator str_validator) None
       = Inr (programming_languages r) \<and>
     field d ''supported_platforms'' (list_validator str_validator) None
       = Inr (supported_platforms r) \<and>
     field d ''resource_type'' (literal_validator [''software'']) (Some ''software'')
       = Inr (resource_type r) \<and>
     field d ''resource_subtype'' (literal_validator [''model'', ''analysis'', ''optimisation'']) None
       = Inr (resource_subtype r) \<and>
     field d ''repository_url'' str_validator None = Inr (repository_url r) \<and>
     field d ''documentation_url'' str_validator None = Inr (documentation_url r) \<and>
     field d ''distributions'' (list_validator Distribution_validate) None = Inr (distributions r) \<and>
     field d ''function'' str_validator None = Inr (function_doc r) \<and>
     field d ''time_domain'' (literal_validator [''steady'', ''dynamic'']) None = Inr (time_domain r) \<and>
     field d ''representation_level'' (literal_validator [''wind_farm'', ''turbine'']) None
       = Inr (representation_level r) \<and>
     field d ''turbine_representation''
       (nullable (literal_validator [''actuator'', ''bem'', ''vortex_method'', ''geometry_resolved''])) None
       = Inr (turbine_representation r) \<and>
     field d ''location'' (nullable (literal_validator [''onshore'', ''offshore''])) None
       = Inr (location r) \<and>
     field d ''input_description'' str_validator None = Inr (input_description r) \<and>
     field d ''output_description'' str_validator None = Inr (output_description r)"
  (is "?L \<longleftrightarrow> ?R")
proof
  assume ?L
  then show ?R
    unfolding model_fields_def ap_eq_Inr
    by (auto simp: WindEnergySoftwareMetadataDocument.make_def)
next
  assume ?R
  then show ?L
    unfolding model_fields_def
    by (simp add: WindEnergySoftwareMetadataDocument.make_def)
qed

lemma errs_model_fields: "errs (model_fields pd d) = violations pd d"
  by (simp add: model_fields_def violations_def errs_ap)

lemma example_validates: "model_validate pd (RDict example_input) = Inr example_document"
  by (simp add: model_validate_def model_fields_def example_input_def example_document_def
      field_def at_loc_def str_validator_def literal_validator_def nullable_def
      date_validator_def list_validator_def Author_validate_def Distribution_validate_def
      WindEnergySoftwareMetadataDocument.make_def Author.make_def Distribution.make_def)

subsection \<open>The outcome of validation\<close>

lemma model_validate_cases:
  "(violations pd d = [] \<and> (\<exists>r. model_validate pd (RDict d) = Inr r)) \<or>
   (violations pd d \<noteq> [] \<and> model_validate pd (RDict d) = Inl (violations pd d))"
  using proper_cases [OF proper_model_fields, of pd d]
  by (simp add: errs_model_fields model_validate_def)

lemma violation_reported:
  "e \<in> set (violations pd d) \<Longrightarrow> \<exists>es. model_validate pd (RDict d) = Inl es \<and> e \<in> set es"
  using model_validate_cases [of pd d] by auto

lemma errs_field_absent: "map_of d k = None \<Longrightarrow> errs (field d k val None) = [([Key k], missing)]"
  by (simp add: field_def)

lemma errs_field_present:
  "map_of d k = Some v \<Longrightarrow>
   errs (field d k val dflt) = map (\<lambda>(p, t). (Key k # p, t)) (errs (val v))"
  by (simp add: field_def errs_at_loc)

lemma missing_in_violations:
  "k \<in> set required_fields \<Longrightarrow> map_of d k = None \<Longrightarrow> ([Key k], missing) \<in> set (violations pd d)"
  unfolding required_fields_def
  by (auto simp: violations_def errs_field_absent)



lemma literal_validator_reject:
  "v \<notin> RStr ` set ex \<Longrightarrow> literal_validator ex v = Inl [([], literal_error)]"
  by (cases v) (auto simp: literal_validator_def)

lemma field_cong: "map_of d k = map_of d' k \<Longrightarrow> field d k val dflt = field d' k val dflt"
  by (simp add: field_def)

lemma model_fields_cong:
  "(\<forall>k \<in> set schema_fields. map_of d k = map_of d' k) \<Longrightarrow> model_fields pd d = model_fields pd d'"
  unfolding model_fields_def schema_fields_def required_fields_def
  by (simp cong: field_cong)

text \<open>
  Claim C5. When \<open>time_domain\<close> holds any value other than the texts \<open>steady\<close> and
  \<open>dynamic\<close>, validation fails and the error list holds the error \<open>literal_error\<close>, the
  library's error for a value outside an enumeration, located at \<open>time_domain\<close>; nothing is
  assumed about the other fields of the input.
\<close>

theorem time_domain_outside_literal:
  "map_of d ''time_domain'' = Some v \<Longrightarrow> v \<noteq> RStr ''steady'' \<Longrightarrow> v \<noteq> RStr ''dynamic'' \<Longrightarrow>
   \<exists>es. model_validate pd (RDict d) = Inl es \<and> ([Key ''time_domain''], literal_error) \<in> set es"
proof -
  assume a: "map_of d ''time_domain'' = Some v" "v \<noteq> RStr ''steady''" "v \<noteq> RStr ''dynamic''"
  then have "literal_validator [''steady'', ''dynamic''] v = Inl [([], literal_error)]"
    by (intro literal_validator_reject) auto
  with a have "errs (field d ''time_domain'' (literal_validator [''steady'', ''dynamic'']) None)
      = [([Key ''time_domain''], literal_error)]"
    by (simp add: errs_field_present)
  then have "([Key ''time_domain''], literal_error) \<in> set (violations pd d)"
    by (simp add: violations_def)
  then show ?thesis by (rule violation_reported)
qed

theorem time_domain_outside_literal_witness:
  "map_of (AList.update ''time_domain'' (RStr ''Steady'') (AList.delete ''name'' example_input))
     ''time_domain'' = Some (RStr ''Steady'') \<and>
   RStr ''Steady'' \<noteq> RStr ''steady'' \<and> RStr ''Steady'' \<noteq> RStr ''dynamic'' \<and>
   (\<exists>es. model_validate no_parse
      (RDict (AList.update ''time_domain'' (RStr ''Steady'') (AList.delete ''name'' example_input)))
        = Inl es \<and> ([Key ''time_domain''], literal_error) \<in> set es)"
  using time_domain_outside_literal
    [of "AList.update ''time_domain'' (RStr ''Steady'') (AList.delete ''name'' example_input)"
        "RStr ''Steady''" no_parse]
  by (simp add: update_conv')

lemma field_resource_type_Inr:
  "field d ''resource_type'' (literal_validator [''software'']) (Some ''software'') = Inr x \<Longrightarrow>
   x = ''software''"
  by (auto simp: field_def at_loc_def literal_validator_def split: option.splits raw.splits if_splits sum.splits)

text \<open>
  Claim C2. When the key \<open>resource_type\<close> is absent and all other fields are valid, that
  is, some valid input \<open>d'\<close> has the same values under all other keys, validation succeeds
  with the record of \<open>d'\<close>, and its \<open>resource_type\<close> is \<open>software\<close>. When \<open>resource_type\<close>
  is present with any value other than the text \<open>software\<close>, validation fails with the
  error \<open>literal_error\<close> located at \<open>resource_type\<close>: the value conflicts with the only
  text the declaration admits.
\<close>

theorem resource_type_constant:
  "(map_of d ''resource_type'' = None \<and>
    (\<forall>k. k \<noteq> ''resource_type'' \<longrightarrow> map_of d k = map_of d' k) \<and>
    model_validate pd (RDict d') = Inr r' \<longrightarrow>
      model_validate pd (RDict d) = Inr r' \<and> resource_type r' = ''software'') \<and>
   (map_of d ''resource_type'' = Some v \<and> v \<noteq> RStr ''software'' \<longrightarrow>
      (\<exists>es. model_validate pd (RDict d) = Inl es \<and>
         ([Key ''resource_type''], literal_error) \<in> set es))"
proof (intro conjI impI)
  assume a: "map_of d ''resource_type'' = None \<and>
    (\<forall>k. k \<noteq> ''resource_type'' \<longrightarrow> map_of d k = map_of d' k) \<and>
    model_validate pd (RDict d') = Inr r'"
  then have v: "model_fields pd d' = Inr r'"
    by (simp add: model_validate_def)
  then have rt: "resource_type r' = ''software''"
    using field_resource_type_Inr [of d' "resource_type r'"]
    by (simp add: model_fields_Inr_iff)
  have same: "\<And>k val dflt. k \<noteq> ''resource_type'' \<Longrightarrow> field d k val dflt = field d' k val dflt"
    using a by (simp add: field_def)
  have dflt: "field d ''resource_type'' (literal_validator [''software'']) (Some ''software'')
      = Inr ''software''"
    using a by (simp add: field_def)
  have "model_fields pd d = Inr r'"
    using v rt by (simp add: model_fields_Inr_iff same dflt)
  then show "model_validate pd (RDict d) = Inr r'"
    by (simp add: model_validate_def)
  show "resource_type r' = ''software''" by (rule rt)
next
  assume a: "map_of d ''resource_type'' = Some v \<and> v \<noteq> RStr ''software''"
  then have "literal_validator [''software''] v = Inl [([], literal_error)]"
    by (intro literal_validator_reject) auto
  with a have "errs (field d ''resource_type'' (literal_validator [''software'']) (Some ''software''))
      = [([Key ''resource_type''], literal_error)]"
    by (simp add: errs_field_present)
  then have "([Key ''resource_type''], literal_error) \<in> set (violations pd d)"
    by (simp add: violations_def)
  then show "\<exists>es. model_validate pd (RDict d) = Inl es \<and>
         ([Key ''resource_type''], literal_error) \<in> set es"
    by (rule violation_reported)
qed

theorem resource_type_constant_witness:
  "map_of example_input ''resource_type'' = None \<and>
   model_validate no_parse (RDict (example_input @ [(''resource_type'', RStr ''software'')]))
     = Inr example_document \<and>
   model_validate no_parse (RDict example_input) = Inr example_document \<and>
   resource_type example_document = ''software'' \<and>
   map_of (AList.update ''resource_type'' (RStr ''hardware'') example_input) ''resource_type''
     = Some (RStr ''hardware'') \<and>
   RStr ''hardware'' \<noteq> RStr ''software'' \<and>
   (\<exists>es. model_validate no_parse
      (RDict (AList.update ''resource_type'' (RStr ''hardware'') example_input)) = Inl es \<and>
      ([Key ''resource_type''], literal_error) \<in> set es)"
proof -
  let ?d' = "example_input @ [(''resource_type'', RStr ''software'')]"
  let ?e = "AList.update ''resource_type'' (RStr ''hardware'') example_input"
  have h1: "map_of example_input ''resource_type'' = None"
    by (simp add: example_input_def)
  have h2: "\<forall>k. k \<noteq> ''resource_type'' \<longrightarrow> map_of example_input k = map_of ?d' k"
    by (simp add: map_add_def split: option.splits)
  have h3: "model_validate no_parse (RDict ?d') = Inr example_document"
    by (simp add: model_validate_def model_fields_def example_input_def example_document_def
      field_def at_loc_def str_validator_def literal_validator_def nullable_def
      date_validator_def list_validator_def Author_validate_def Distribution_validate_def
      WindEnergySoftwareMetadataDocument.make_def Author.make_def Distribution.make_def)
  have c1: "model_validate no_parse (RDict example_input) = Inr example_document \<and>
      resource_type example_document = ''software''"
    using resource_type_constant [of example_input ?d' no_parse example_document] h1 h2 h3
    by blast
  have h4: "map_of ?e ''resource_type'' = Some (RStr ''hardware'')"
    by (simp add: update_conv')
  have h5: "RStr ''hardware'' \<noteq> RStr ''software''"
    by simp
  have c2: "\<exists>es. model_validate no_parse (RDict ?e) = Inl es \<and>
      ([Key ''resource_type''], literal_error) \<in> set es"
    using resource_type_constant [of ?e _ no_parse _ "RStr ''hardware''"] h4 h5
    by blast
  from h1 h3 c1 h4 h5 c2 show ?thesis by blast
qed

lemma validate_items_error:
  "i < length xs \<Longrightarrow> (p, t) \<in> set (errs (val (xs ! i))) \<Longrightarrow>
   (Idx (j + i) # p, t) \<in> set (errs (validate_items val j xs))"
proof (induction xs arbitrary: i j)
  case Nil
  then show ?case by simp
next
  case (Cons x xs)
  show ?case
  proof (cases i)
    case 0
    with Cons.prems show ?thesis
      by (force simp: errs_ap errs_at_loc)
  next
    case (Suc n)
    with Cons.prems have "(Idx (Suc j + n) # p, t) \<in> set (errs (validate_items val (Suc j) xs))"
      by (intro Cons.IH) simp_all
    with Suc show ?thesis
      by (simp add: errs_ap)
  qed
qed

lemma list_field_error:
  "map_of d k = Some (RList xs) \<Longrightarrow> i < length xs \<Longrightarrow> (p, t) \<in> set (errs (val (xs ! i))) \<Longrightarrow>
   (Key k # Idx i # p, t) \<in> set (errs (field d k (list_validator val) dflt))"
  using validate_items_error [of i xs p t val 0]
  by (force simp: errs_field_present list_validator_def)

text \<open>
  Claim C6. When \<open>authors\<close> (or \<open>distributions\<close>) holds a list, every error that the
  validation of an element on its own yields is in the error list of the document, its
  path prefixed by the field and the element's position, whatever the other elements are:
  an error at \<open>orcid\<close> of the third author is reported at \<open>authors[2].orcid\<close>.
\<close>

theorem sequence_elements_validated_independently:
  "(map_of d ''authors'' = Some (RList xs) \<and> i < length xs \<and>
    (p, t) \<in> set (errs (Author_validate (xs ! i))) \<longrightarrow>
      (\<exists>es. model_validate pd (RDict d) = Inl es \<and>
         (Key ''authors'' # Idx i # p, t) \<in> set es)) \<and>
   (map_of d ''distributions'' = Some (RList ys) \<and> j < length ys \<and>
    (q, u) \<in> set (errs (Distribution_validate (ys ! j))) \<longrightarrow>
      (\<exists>es. model_validate pd (RDict d) = Inl es \<and>
         (Key ''distributions'' # Idx j # q, u) \<in> set es))"
proof (intro conjI impI)
  assume "map_of d ''authors'' = Some (RList xs) \<and> i < length xs \<and>
    (p, t) \<in> set (errs (Author_validate (xs ! i)))"
  then have "(Key ''authors'' # Idx i # p, t)
      \<in> set (errs (field d ''authors'' (list_validator Author_validate) None))"
    by (simp add: list_field_error)
  then have "(Key ''authors'' # Idx i # p, t) \<in> set (violations pd d)"
    by (simp add: violations_def)
  then show "\<exists>es. model_validate pd (RDict d) = Inl es \<and>
         (Key ''authors'' # Idx i # p, t) \<in> set es"
    by (rule violation_reported)
next
  assume "map_of d ''distributions'' = Some (RList ys) \<and> j < length ys \<and>
    (q, u) \<in> set (errs (Distribution_validate (ys ! j)))"
  then have "(Key ''distributions'' # Idx j # q, u)
      \<in> set (errs (field d ''distributions'' (list_validator Distribution_validate) None))"
    by (simp add: list_field_error)
  then have "(Key ''distributions'' # Idx j # q, u) \<in> set (violations pd d)"
    by (simp add: violations_def)
  then show "\<exists>es. model_validate pd (RDict d) = Inl es \<and>
         (Key ''distributions'' # Idx j # q, u) \<in> set es"
    by (rule violation_reported)
qed

theorem sequence_elements_validated_independently_witness:
  "map_of (AList.update ''authors'' (RList three_authors) example_input) ''authors''
     = Some (RList three_authors) \<and>
   2 < length three_authors \<and>
   ([Key ''orcid''], missing) \<in> set (errs (Author_validate (three_authors ! 2))) \<and>
   (\<exists>es. model_validate no_parse
       (RDict (AList.update ''authors'' (RList three_authors) example_input)) = Inl es \<and>
      ([Key ''authors'', Idx 2, Key ''orcid''], missing) \<in> set es) \<and>
   map_of (AList.update ''distributions'' (RList two_distributions) example_input) ''distributions''
     = Some (RList two_distributions) \<and>
   1 < length two_distributions \<and>
   ([Key ''url''], string_type) \<in> set (errs (Distribution_validate (two_distributions ! 1))) \<and>
   (\<exists>es. model_validate no_parse
       (RDict (AList.update ''distributions'' (RList two_distributions) example_input)) = Inl es \<and>
      ([Key ''distributions'', Idx 1, Key ''url''], string_type) \<in> set es)"
proof -
  let ?a = "AList.update ''authors'' (RList three_authors) example_input"
  let ?b = "AList.update ''distributions'' (RList two_distributions) example_input"
  have a1: "map_of ?a ''authors'' = Some (RList three_authors)"
    by (simp add: update_conv')
  have a2: "2 < length three_authors"
    by (simp add: three_authors_def)
  have a3: "([Key ''orcid''], missing) \<in> set (errs (Author_validate (three_authors ! 2)))"
    by (simp add: three_authors_def Author_validate_def field_def at_loc_def str_validator_def
        Author.make_def)
  have a4: "\<exists>es. model_validate no_parse (RDict ?a) = Inl es \<and>
      ([Key ''authors'', Idx 2, Key ''orcid''], missing) \<in> set es"
    using sequence_elements_validated_independently
      [where d = ?a and xs = three_authors and i = 2 and p = "[Key ''orcid'']" and t = missing
         and pd = no_parse] a1 a2 a3
    by blast
  have b1: "map_of ?b ''distributions'' = Some (RList two_distributions)"
    by (simp add: update_conv')
  have b2: "1 < length two_distributions"
    by (simp add: two_distributions_def)
  have b3: "([Key ''url''], string_type) \<in> set (errs (Distribution_validate (two_distributions ! 1)))"
    by (simp add: two_distributions_def Distribution_validate_def field_def at_loc_def
        str_validator_def Distribution.make_def)
  have b4: "\<exists>es. model_validate no_parse (RDict ?b) = Inl es \<and>
      ([Key ''distributions'', Idx 1, Key ''url''], string_type) \<in> set es"
    using sequence_elements_validated_independently
      [where d = ?b and ys = two_distributions and j = 1 and q = "[Key ''url'']"
         and u = string_type and pd = no_parse] b1 b2 b3
    by blast
  from a1 a2 a3 a4 b1 b2 b3 b4 show ?thesis by blast
qed

lemma keys_model_dump: "fst ` set (model_dump r) = set schema_fields"
  by (auto simp add: model_dump_def schema_fields_def required_fields_def)

text \<open>
  Claim C9. Validation reads the declared fields only: two inputs that hold the same
  values under the declared field names have the same result, whatever other keys they
  hold. So an input that is valid stays valid when keys that the schema does not name
  are added, with the same record and no error; the record has the declared fields only,
  and its serialisation writes exactly those keys.
\<close>

theorem extra_keys_ignored:
  "(\<forall>k \<in> set schema_fields. map_of d' k = map_of d k) \<Longrightarrow>
   model_validate pd (RDict d') = model_validate pd (RDict d) \<and>
   (\<forall>r. model_validate pd (RDict d') = Inr r \<longrightarrow> fst ` set (model_dump r) = set schema_fields)"
  using model_fields_cong [of d' d pd]
  by (simp add: model_validate_def keys_model_dump)

theorem extra_keys_ignored_witness:
  "model_validate no_parse (RDict input_with_extra_keys) = Inr example_document \<and>
   map_of input_with_extra_keys ''homepage'' = Some (RStr ''https://example.org'') \<and>
   ''homepage'' \<notin> fst ` set (model_dump example_document)"
proof -
  have h: "\<forall>k \<in> set schema_fields. map_of input_with_extra_keys k = map_of example_input k"
    by (simp add: schema_fields_def required_fields_def input_with_extra_keys_def
        example_input_def)
  have e: "model_validate no_parse (RDict example_input) = Inr example_document"
    by (rule example_validates)
  from extra_keys_ignored [OF h, of no_parse] e
  have c: "model_validate no_parse (RDict input_with_extra_keys) = Inr example_document \<and>
      fst ` set (model_dump example_document) = set schema_fields"
    by simp
  have k: "''homepage'' \<notin> set schema_fields"
    by (simp add: schema_fields_def required_fields_def)
  have m: "map_of input_with_extra_keys ''homepage'' = Some (RStr ''https://example.org'')"
    by (simp add: input_with_extra_keys_def)
  from c k m show ?thesis by simp
qed

subsection \<open>Where the error \<open>missing\<close> comes from\<close>

lemma str_validator_no_missing: "(p, missing) \<notin> set (errs (str_validator v))"
  by (cases v) (simp_all add: str_validator_def)

lemma literal_validator_no_missing: "(p, missing) \<notin> set (errs (literal_validator ex v))"
  by (cases v) (simp_all add: literal_validator_def)

lemma date_validator_no_missing: "(p, missing) \<notin> set (errs (date_validator pd v))"
  by (cases v; cases "pd v") (simp_all add: date_validator_def)

lemma errs_nullable: "errs (nullable inner v) = (if v = RNone then [] else errs (inner v))"
  by (cases v; cases "inner v") (simp_all add: nullable_def)

lemma nullable_no_missing:
  "(\<And>v. (p, missing) \<notin> set (errs (inner v))) \<Longrightarrow> (p, missing) \<notin> set (errs (nullable inner v))"
  by (simp add: errs_nullable)

lemma validate_items_path: "(p, t) \<in> set (errs (validate_items val i xs)) \<Longrightarrow> p \<noteq> []"
  by (induction xs arbitrary: i) (auto simp: errs_ap errs_at_loc)

lemma list_validator_no_missing: "([], missing) \<notin> set (errs (list_validator val v))"
  by (cases v) (auto simp: list_validator_def dest: validate_items_path)

lemma field_missing:
  assumes "\<And>v. ([], missing) \<notin> set (errs (val v))"
    and "([Key k], missing) \<in> set (errs (field d k' val dflt))"
  shows "map_of d k = None"
proof (cases "map_of d k'")
  case None
  with assms(2) show ?thesis
    by (cases dflt) (simp_all add: field_def)
next
  case (Some v)
  with assms(2) have "([], missing) \<in> set (errs (val v))"
    by (auto simp: errs_field_present)
  with assms(1) show ?thesis by blast
qed

lemma missing_violation_absent:
  assumes "([Key k], missing) \<in> set (violations pd d)"
  shows "map_of d k = None"
  using assms unfolding violations_def set_append Un_iff
  by (elim disjE)
    (erule field_missing [rotated],
      rule str_validator_no_missing literal_validator_no_missing date_validator_no_missing
        list_validator_no_missing nullable_no_missing [OF literal_validator_no_missing])+

lemma field_error_key:
  "(Key k # p, t) \<in> set (errs (field d k' val dflt)) \<Longrightarrow> k = k'"
  by (cases "map_of d k'"; cases dflt) (auto simp: field_def errs_at_loc)

lemma field_missing_required:
  assumes "\<And>v. ([], missing) \<notin> set (errs (val v))"
    and "([Key k], missing) \<in> set (errs (field d k' val dflt))"
  shows "k = k' \<and> dflt = None"
proof (cases "map_of d k'")
  case None
  with assms(2) show ?thesis
    by (cases dflt) (simp_all add: field_def)
next
  case (Some v)
  with assms(2) have "([], missing) \<in> set (errs (val v))"
    by (auto simp: errs_field_present)
  with assms(1) show ?thesis by blast
qed

lemma missing_violation_required:
  assumes "([Key k], missing) \<in> set (violations pd d)"
  shows "k \<in> set required_fields"
  using assms unfolding violations_def set_append Un_iff
  by (elim disjE)
    (drule field_missing_required [rotated],
      rule str_validator_no_missing literal_validator_no_missing date_validator_no_missing
        list_validator_no_missing nullable_no_missing [OF literal_validator_no_missing],
      simp add: required_fields_def)+

lemma null_literal:
  "k \<in> {''source_access_right'', ''resource_type'', ''resource_subtype'', ''time_domain'',
         ''representation_level''} \<Longrightarrow> map_of d k = Some RNone \<Longrightarrow>
   ([Key k], literal_error) \<in> set (violations pd d)"
  by (auto simp: violations_def errs_field_present literal_validator_def)

lemma null_list:
  "k \<in> {''authors'', ''programming_languages'', ''supported_platforms'', ''distributions''} \<Longrightarrow>
   map_of d k = Some RNone \<Longrightarrow> ([Key k], list_type) \<in> set (violations pd d)"
  by (auto simp: violations_def errs_field_present list_validator_def)

lemma null_date:
  "map_of d ''latest_release_date'' = Some RNone \<Longrightarrow>
   ([Key ''latest_release_date''], date_type) \<in> set (violations pd d)"
  by (auto simp: violations_def errs_field_present date_validator_def)

lemma field_errors_other_key:
  "k \<noteq> k' \<Longrightarrow> (Key k # p, t) \<notin> set (errs (field d k' val dflt))"
  using field_error_key [of k p t d k' val dflt] by blast

lemma null_optional_no_error:
  assumes "k = ''turbine_representation'' \<or> k = ''location''" "map_of d k = Some RNone"
  shows "(Key k # p, t) \<notin> set (violations pd d)"
  using assms(1)
proof
  assume k: "k = ''turbine_representation''"
  with assms(2) show ?thesis
    by (simp add: violations_def field_errors_other_key errs_field_present errs_nullable)
next
  assume k: "k = ''location''"
  with assms(2) show ?thesis
    by (simp add: violations_def field_errors_other_key errs_field_present errs_nullable)
qed

subsection \<open>Fields that hold \<^verbatim>\<open>None\<close>\<close>

lemma errs_field_null_text:
  "map_of d k = Some RNone \<Longrightarrow> errs (field d k str_validator dflt) = [([Key k], string_type)]"
  by (simp add: errs_field_present str_validator_def)

lemma null_text:
  "k \<in> set text_fields \<Longrightarrow> map_of d k = Some RNone \<Longrightarrow>
   ([Key k], string_type) \<in> set (violations pd d)"
  unfolding text_fields_def
  by (auto simp: violations_def errs_field_null_text)

lemma field_kind:
  assumes "k \<in> set schema_fields" "k \<noteq> ''turbine_representation''" "k \<noteq> ''location''"
  shows "k \<in> set text_fields \<or>
    k \<in> {''source_access_right'', ''resource_type'', ''resource_subtype'', ''time_domain'',
         ''representation_level''} \<or>
    k \<in> {''authors'', ''programming_languages'', ''supported_platforms'', ''distributions''} \<or>
    k = ''latest_release_date''"
  using assms unfolding schema_fields_def required_fields_def text_fields_def
  by (simp only: list.set insert_iff empty_iff simp_thms) (elim disjE; simp)


lemma null_not_missing:
  assumes "k \<in> set schema_fields" "k \<noteq> ''turbine_representation''" "k \<noteq> ''location''"
    "map_of d k = Some RNone"
  shows "\<exists>t. ([Key k], t) \<in> set (violations pd d) \<and> t \<noteq> missing"
proof -
  consider "k \<in> set text_fields"
    | "k \<in> {''source_access_right'', ''resource_type'', ''resource_subtype'', ''time_domain'',
         ''representation_level''}"
    | "k \<in> {''authors'', ''programming_languages'', ''supported_platforms'', ''distributions''}"
    | "k = ''latest_release_date''"
    using field_kind [OF assms(1-3)] by argo
  then show ?thesis
  proof cases
    case 1
    from null_text [OF this assms(4)] show ?thesis
      by (intro exI [of _ string_type]) simp
  next
    case 2
    from null_literal [OF this assms(4)] show ?thesis
      by (intro exI [of _ literal_error]) simp
  next
    case 3
    from null_list [OF this assms(4)] show ?thesis
      by (intro exI [of _ list_type]) simp
  next
    case 4
    with null_date [of d pd] assms(4) show ?thesis
      by (intro exI [of _ date_type]) simp
  qed
qed

text \<open>
  Claim C10. A value \<^verbatim>\<open>None\<close> is not an absent key. When a field declared as \<^verbatim>\<open>str\<close>,
  such as \<open>license\<close>, holds \<^verbatim>\<open>None\<close>, validation fails with the type error \<open>string_type\<close>
  at that field and with no error \<open>missing\<close> at it. The same holds, with the type error of
  the declared type, for every declared field but \<open>turbine_representation\<close> and
  \<open>location\<close>; for these two, \<^verbatim>\<open>None\<close> yields no error at the field.
\<close>

theorem null_is_not_absence:
  "(k \<in> set text_fields \<and> map_of d k = Some RNone \<longrightarrow>
      (\<exists>es. model_validate pd (RDict d) = Inl es \<and>
         ([Key k], string_type) \<in> set es \<and> ([Key k], missing) \<notin> set es)) \<and>
   (k \<in> set schema_fields \<and> k \<noteq> ''turbine_representation'' \<and> k \<noteq> ''location'' \<and>
    map_of d k = Some RNone \<longrightarrow>
      (\<exists>es t. model_validate pd (RDict d) = Inl es \<and>
         ([Key k], t) \<in> set es \<and> t \<noteq> missing \<and> ([Key k], missing) \<notin> set es)) \<and>
   ((k = ''turbine_representation'' \<or> k = ''location'') \<and> map_of d k = Some RNone \<longrightarrow>
      (\<forall>es p t. model_validate pd (RDict d) = Inl es \<longrightarrow> (Key k # p, t) \<notin> set es))"
proof (intro conjI impI)
  assume a: "k \<in> set text_fields \<and> map_of d k = Some RNone"
  then have e: "([Key k], string_type) \<in> set (violations pd d)"
    by (simp add: null_text)
  have n: "([Key k], missing) \<notin> set (violations pd d)"
    using a missing_violation_absent [of k pd d] by auto
  from e have "violations pd d \<noteq> []" by auto
  with model_validate_cases [of pd d]
  have "model_validate pd (RDict d) = Inl (violations pd d)" by auto
  with e n show "\<exists>es. model_validate pd (RDict d) = Inl es \<and>
         ([Key k], string_type) \<in> set es \<and> ([Key k], missing) \<notin> set es"
    by blast
next
  assume a: "k \<in> set schema_fields \<and> k \<noteq> ''turbine_representation'' \<and> k \<noteq> ''location'' \<and>
    map_of d k = Some RNone"
  then obtain t where e: "([Key k], t) \<in> set (violations pd d)" and t: "t \<noteq> missing"
    using null_not_missing [of k d pd] by blast
  have n: "([Key k], missing) \<notin> set (violations pd d)"
    using a missing_violation_absent [of k pd d] by auto
  from e have "violations pd d \<noteq> []" by auto
  with model_validate_cases [of pd d]
  have "model_validate pd (RDict d) = Inl (violations pd d)" by auto
  with e t n show "\<exists>es t. model_validate pd (RDict d) = Inl es \<and>
         ([Key k], t) \<in> set es \<and> t \<noteq> missing \<and> ([Key k], missing) \<notin> set es"
    by blast
next
  assume a: "(k = ''turbine_representation'' \<or> k = ''location'') \<and> map_of d k = Some RNone"
  show "\<forall>es p t. model_validate pd (RDict d) = Inl es \<longrightarrow> (Key k # p, t) \<notin> set es"
  proof (intro allI impI)
    fix es p t
    assume "model_validate pd (RDict d) = Inl es"
    with model_validate_cases [of pd d] have "es = violations pd d" by auto
    with a show "(Key k # p, t) \<notin> set es"
      by (simp add: null_optional_no_error)
  qed
qed


theorem null_is_not_absence_witness:
  "''license'' \<in> set text_fields \<and>
   map_of (AList.update ''license'' RNone example_input) ''license'' = Some RNone \<and>
   (\<exists>es. model_validate no_parse (RDict (AList.update ''license'' RNone example_input)) = Inl es \<and>
      ([Key ''license''], string_type) \<in> set es \<and> ([Key ''license''], missing) \<notin> set es) \<and>
   map_of (AList.update ''authors'' RNone example_input) ''authors'' = Some RNone \<and>
   (\<exists>es t. model_validate no_parse (RDict (AList.update ''authors'' RNone example_input)) = Inl es \<and>
      ([Key ''authors''], t) \<in> set es \<and> t \<noteq> missing \<and> ([Key ''authors''], missing) \<notin> set es) \<and>
   map_of (AList.delete ''name'' example_input) ''location'' = Some RNone \<and>
   (\<exists>es. model_validate no_parse (RDict (AList.delete ''name'' example_input)) = Inl es \<and>
      (\<forall>p t. (Key ''location'' # p, t) \<notin> set es))"
proof -
  let ?a = "AList.update ''license'' RNone example_input"
  let ?b = "AList.update ''authors'' RNone example_input"
  let ?c = "AList.delete ''name'' example_input"
  have a1: "''license'' \<in> set text_fields"
    by (simp add: text_fields_def)
  have a2: "map_of ?a ''license'' = Some RNone"
    by (simp add: update_conv')
  have a3: "\<exists>es. model_validate no_parse (RDict ?a) = Inl es \<and>
      ([Key ''license''], string_type) \<in> set es \<and> ([Key ''license''], missing) \<notin> set es"
    using null_is_not_absence [of "''license''" ?a no_parse] a1 a2 by simp
  have b1: "''authors'' \<in> set schema_fields"
    by (simp add: schema_fields_def required_fields_def)
  have b2: "map_of ?b ''authors'' = Some RNone"
    by (simp add: update_conv')
  have b3: "\<exists>es t. model_validate no_parse (RDict ?b) = Inl es \<and>
      ([Key ''authors''], t) \<in> set es \<and> t \<noteq> missing \<and> ([Key ''authors''], missing) \<notin> set es"
    using null_is_not_absence [of "''authors''" ?b no_parse] b1 b2 by simp
  have c1: "map_of ?c ''location'' = Some RNone"
    by (simp add: delete_conv example_input_def)
  have "map_of ?c ''name'' = None"
    by (simp add: delete_conv)
  then have "([Key ''name''], missing) \<in> set (violations no_parse ?c)"
    by (intro missing_in_violations) (simp_all add: required_fields_def)
  then obtain es where c2: "model_validate no_parse (RDict ?c) = Inl es"
    using violation_reported by blast
  with null_is_not_absence [of "''location''" ?c no_parse] c1
  have c3: "\<forall>p t. (Key ''location'' # p, t) \<notin> set es"
    by simp
  from c2 c3 have c4: "\<exists>es. model_validate no_parse (RDict ?c) = Inl es \<and>
      (\<forall>p t. (Key ''location'' # p, t) \<notin> set es)"
    by blast
  show ?thesis
    by (intro conjI a1 a2 a3 b2 b3 c1 c4)
qed

subsection \<open>Required fields, fields that may hold \<^verbatim>\<open>None\<close>, text fields\<close>

lemma field_nullable_None:
  "map_of d k = Some RNone \<Longrightarrow> field d k (nullable inner) dflt = Inr None"
  by (simp add: field_def at_loc_def nullable_def)




text \<open>
  Claim C3, as amended. The fields \<open>turbine_representation\<close> and \<open>location\<close> may hold
  \<^verbatim>\<open>None\<close>: when one of them does and all other fields are valid (a valid input \<open>d'\<close> has
  the same values under all other keys), validation succeeds with the record of \<open>d'\<close> and
  \<open>None\<close> in that field. Neither may be absent: when any field declared without a default,
  these two included, is absent, validation fails with the error \<open>missing\<close> at exactly that
  field, and the error \<open>missing\<close> is reported only for absent fields declared without a
  default (so never for \<open>resource_type\<close>).
\<close>

theorem required_and_nullable_fields:
  "(k \<in> set required_fields \<and> map_of d k = None \<longrightarrow>
      (\<exists>es. model_validate pd (RDict d) = Inl es \<and> ([Key k], missing) \<in> set es \<and>
         (\<forall>k'. ([Key k'], missing) \<in> set es \<longrightarrow>
            k' \<in> set required_fields \<and> map_of d k' = None))) \<and>
   (map_of d ''turbine_representation'' = Some RNone \<and>
    (\<forall>k. k \<noteq> ''turbine_representation'' \<longrightarrow> map_of d k = map_of d' k) \<and>
    model_validate pd (RDict d') = Inr r' \<longrightarrow>
      model_validate pd (RDict d) = Inr (r'\<lparr>turbine_representation := None\<rparr>)) \<and>
   (map_of d ''location'' = Some RNone \<and>
    (\<forall>k. k \<noteq> ''location'' \<longrightarrow> map_of d k = map_of d' k) \<and>
    model_validate pd (RDict d') = Inr r' \<longrightarrow>
      model_validate pd (RDict d) = Inr (r'\<lparr>location := None\<rparr>))"
proof (intro conjI impI)
  assume a: "k \<in> set required_fields \<and> map_of d k = None"
  then have e: "([Key k], missing) \<in> set (violations pd d)"
    by (simp add: missing_in_violations)
  then have "violations pd d \<noteq> []" by auto
  with model_validate_cases [of pd d]
  have r: "model_validate pd (RDict d) = Inl (violations pd d)" by auto
  have "\<forall>k'. ([Key k'], missing) \<in> set (violations pd d) \<longrightarrow>
      k' \<in> set required_fields \<and> map_of d k' = None"
    using missing_violation_required [of _ pd d] missing_violation_absent [of _ pd d] by blast
  with r e show "\<exists>es. model_validate pd (RDict d) = Inl es \<and> ([Key k], missing) \<in> set es \<and>
         (\<forall>k'. ([Key k'], missing) \<in> set es \<longrightarrow>
            k' \<in> set required_fields \<and> map_of d k' = None)"
    by blast
next
  assume a: "map_of d ''turbine_representation'' = Some RNone \<and>
    (\<forall>k. k \<noteq> ''turbine_representation'' \<longrightarrow> map_of d k = map_of d' k) \<and>
    model_validate pd (RDict d') = Inr r'"
  then have v: "model_fields pd d' = Inr r'"
    by (simp add: model_validate_def)
  have same: "\<And>k val dflt. k \<noteq> ''turbine_representation'' \<Longrightarrow>
      field d k val dflt = field d' k val dflt"
    using a by (simp add: field_def)
  have "model_fields pd d = Inr (r'\<lparr>turbine_representation := None\<rparr>)"
    using v a by (simp add: model_fields_Inr_iff same field_nullable_None)
  then show "model_validate pd (RDict d) = Inr (r'\<lparr>turbine_representation := None\<rparr>)"
    by (simp add: model_validate_def)
next
  assume a: "map_of d ''location'' = Some RNone \<and>
    (\<forall>k. k \<noteq> ''location'' \<longrightarrow> map_of d k = map_of d' k) \<and>
    model_validate pd (RDict d') = Inr r'"
  then have v: "model_fields pd d' = Inr r'"
    by (simp add: model_validate_def)
  have same: "\<And>k val dflt. k \<noteq> ''location'' \<Longrightarrow> field d k val dflt = field d' k val dflt"
    using a by (simp add: field_def)
  have "model_fields pd d = Inr (r'\<lparr>location := None\<rparr>)"
    using v a by (simp add: model_fields_Inr_iff same field_nullable_None)
  then show "model_validate pd (RDict d) = Inr (r'\<lparr>location := None\<rparr>)"
    by (simp add: model_validate_def)
qed

lemmas eval_defs = model_validate_def model_fields_def example_input_def example_document_def
  field_def at_loc_def str_validator_def literal_validator_def nullable_def
  date_validator_def list_validator_def Author_validate_def Distribution_validate_def
  WindEnergySoftwareMetadataDocument.make_def Author.make_def Distribution.make_def

text \<open>
  The claim as stated fails on the example: without the key \<open>turbine_representation\<close>, or
  without the key \<open>location\<close>, validation fails although every other field is valid; and
  the example itself has no key \<open>resource_type\<close> and is valid.
\<close>

theorem absent_fields_counterexample:
  "model_validate no_parse (RDict (AList.delete ''turbine_representation'' example_input))
     = Inl [([Key ''turbine_representation''], missing)] \<and>
   model_validate no_parse (RDict (AList.delete ''location'' example_input))
     = Inl [([Key ''location''], missing)] \<and>
   map_of example_input ''resource_type'' = None \<and>
   model_validate no_parse (RDict example_input) = Inr example_document"
  by (simp add: eval_defs delete_conv)

theorem required_and_nullable_fields_witness:
  "''turbine_representation'' \<in> set required_fields \<and>
   map_of (AList.delete ''turbine_representation'' example_input) ''turbine_representation'' = None \<and>
   (\<exists>es. model_validate no_parse
       (RDict (AList.delete ''turbine_representation'' example_input)) = Inl es \<and>
      ([Key ''turbine_representation''], missing) \<in> set es) \<and>
   map_of (AList.update ''turbine_representation'' RNone example_input) ''turbine_representation''
     = Some RNone \<and>
   model_validate no_parse (RDict example_input) = Inr example_document \<and>
   model_validate no_parse (RDict (AList.update ''turbine_representation'' RNone example_input))
     = Inr (example_document\<lparr>turbine_representation := None\<rparr>) \<and>
   map_of example_input ''location'' = Some RNone \<and>
   model_validate no_parse (RDict (AList.update ''location'' (RStr ''offshore'') example_input))
     = Inr (example_document\<lparr>location := Some ''offshore''\<rparr>) \<and>
   model_validate no_parse (RDict example_input)
     = Inr (example_document\<lparr>location := Some ''offshore'', location := None\<rparr>)"
proof -
  let ?a = "AList.delete ''turbine_representation'' example_input"
  let ?b = "AList.update ''turbine_representation'' RNone example_input"
  let ?c = "AList.update ''location'' (RStr ''offshore'') example_input"
  have a1: "''turbine_representation'' \<in> set required_fields"
    by (simp add: required_fields_def)
  have a2: "map_of ?a ''turbine_representation'' = None"
    by (simp add: delete_conv)
  have a3: "\<exists>es. model_validate no_parse (RDict ?a) = Inl es \<and>
      ([Key ''turbine_representation''], missing) \<in> set es"
    using required_and_nullable_fields
      [where k = "''turbine_representation''" and d = ?a and pd = no_parse] a1 a2
    by blast
  have b1: "map_of ?b ''turbine_representation'' = Some RNone"
    by (simp add: update_conv')
  have b2: "\<forall>k. k \<noteq> ''turbine_representation'' \<longrightarrow> map_of ?b k = map_of example_input k"
    by (simp add: update_conv')
  have b3: "model_validate no_parse (RDict example_input) = Inr example_document"
    by (rule example_validates)
  have b4: "model_validate no_parse (RDict ?b)
      = Inr (example_document\<lparr>turbine_representation := None\<rparr>)"
    using required_and_nullable_fields
      [where d = ?b and d' = example_input and pd = no_parse and r' = example_document] b1 b2 b3
    by blast
  have c1: "map_of example_input ''location'' = Some RNone"
    by (simp add: example_input_def)
  have c2: "\<forall>k. k \<noteq> ''location'' \<longrightarrow> map_of example_input k = map_of ?c k"
    by (simp add: update_conv')
  have c3: "model_validate no_parse (RDict ?c)
      = Inr (example_document\<lparr>location := Some ''offshore''\<rparr>)"
    by (simp add: eval_defs update_conv')
  have c4: "model_validate no_parse (RDict example_input)
      = Inr (example_document\<lparr>location := Some ''offshore'', location := None\<rparr>)"
    using required_and_nullable_fields
      [where d = example_input and d' = ?c and pd = no_parse
         and r' = "example_document\<lparr>location := Some ''offshore''\<rparr>"]
      c1 c2 c3
    by blast
  show ?thesis
    by (intro conjI a1 a2 a3 b1 b3 b4 c1 c3 c4)
qed







subsection \<open>Serialising a validated record and validating it again\<close>

lemma field_literal_Inr:
  "field d k (literal_validator ex) None = Inr x \<Longrightarrow> x \<in> set ex"
  by (auto simp: field_def at_loc_def literal_validator_def
      split: option.splits raw.splits if_splits sum.splits)

lemma field_nullable_literal_Inr:
  "field d k (nullable (literal_validator ex)) None = Inr x \<Longrightarrow>
   x = None \<or> (\<exists>s. x = Some s \<and> s \<in> set ex)"
  by (auto simp: field_def at_loc_def nullable_def literal_validator_def
      split: option.splits raw.splits if_splits sum.splits)

lemma Author_validate_dump: "Author_validate (Author_dump a) = Inr a"
  by (simp add: Author_dump_def Author_validate_def field_def at_loc_def str_validator_def
      Author.make_def)

lemma Distribution_validate_dump: "Distribution_validate (Distribution_dump x) = Inr x"
  by (simp add: Distribution_dump_def Distribution_validate_def field_def at_loc_def
      str_validator_def Distribution.make_def)

lemma validate_items_dump:
  "(\<And>x. val (dump x) = Inr x) \<Longrightarrow> validate_items val i (map dump xs) = Inr xs"
  by (induction xs arbitrary: i) (simp_all add: at_loc_def)

lemma list_validator_dump:
  "(\<And>x. val (dump x) = Inr x) \<Longrightarrow> list_validator val (RList (map dump xs)) = Inr xs"
  by (simp add: list_validator_def validate_items_dump)

lemma str_validator_RStr: "str_validator (RStr s) = Inr s"
  by (simp add: str_validator_def)

lemma literal_validator_member: "s \<in> set ex \<Longrightarrow> literal_validator ex (RStr s) = Inr s"
  by (simp add: literal_validator_def)

lemma nullable_literal_dump:
  "x = None \<or> (\<exists>s. x = Some s \<and> s \<in> set ex) \<Longrightarrow>
   nullable (literal_validator ex) (optional_dump x) = Inr x"
  by (auto simp: nullable_def optional_dump_def literal_validator_def)

lemma field_found: "map_of d k = Some v \<Longrightarrow> val v = Inr x \<Longrightarrow> field d k val dflt = Inr x"
  by (simp add: field_def at_loc_def)

lemma map_of_model_dump:
  "map_of (model_dump r) ''id'' = Some (RStr (id_doc r))"
  "map_of (model_dump r) ''name'' = Some (RStr (name_doc r))"
  "map_of (model_dump r) ''description'' = Some (RStr (description r))"
  "map_of (model_dump r) ''latest_release_version'' = Some (RStr (latest_release_version r))"
  "map_of (model_dump r) ''latest_release_date'' = Some (RDate (latest_release_date r))"
  "map_of (model_dump r) ''license'' = Some (RStr (license r))"
  "map_of (model_dump r) ''source_access_right'' = Some (RStr (source_access_right r))"
  "map_of (model_dump r) ''authors'' = Some (RList (map Author_dump (authors r)))"
  "map_of (model_dump r) ''programming_languages''
     = Some (RList (map RStr (programming_languages r)))"
  "map_of (model_dump r) ''supported_platforms'' = Some (RList (map RStr (supported_platforms r)))"
  "map_of (model_dump r) ''resource_type'' = Some (RStr (resource_type r))"
  "map_of (model_dump r) ''resource_subtype'' = Some (RStr (resource_subtype r))"
  "map_of (model_dump r) ''repository_url'' = Some (RStr (repository_url r))"
  "map_of (model_dump r) ''documentation_url'' = Some (RStr (documentation_url r))"
  "map_of (model_dump r) ''distributions''
     = Some (RList (map Distribution_dump (distributions r)))"
  "map_of (model_dump r) ''function'' = Some (RStr (function_doc r))"
  "map_of (model_dump r) ''time_domain'' = Some (RStr (time_domain r))"
  "map_of (model_dump r) ''representation_level'' = Some (RStr (representation_level r))"
  "map_of (model_dump r) ''turbine_representation''
     = Some (optional_dump (turbine_representation r))"
  "map_of (model_dump r) ''location'' = Some (optional_dump (location r))"
  "map_of (model_dump r) ''input_description'' = Some (RStr (input_description r))"
  "map_of (model_dump r) ''output_description'' = Some (RStr (output_description r))"
  by (simp_all add: model_dump_def)

lemma round_trip_fields:
  assumes "model_fields pd d = Inr r"
  shows "model_fields pd (model_dump r) = Inr r"
proof -
  note f = assms [unfolded model_fields_Inr_iff]
  have l1: "source_access_right r \<in> set [''open'', ''closed'']"
    using f by (intro field_literal_Inr [of d "''source_access_right''"]) simp
  have l2: "resource_type r = ''software''"
    using f by (intro field_resource_type_Inr [of d]) simp
  have l3: "resource_subtype r \<in> set [''model'', ''analysis'', ''optimisation'']"
    using f by (intro field_literal_Inr [of d "''resource_subtype''"]) simp
  have l4: "time_domain r \<in> set [''steady'', ''dynamic'']"
    using f by (intro field_literal_Inr [of d "''time_domain''"]) simp
  have l5: "representation_level r \<in> set [''wind_farm'', ''turbine'']"
    using f by (intro field_literal_Inr [of d "''representation_level''"]) simp
  have l6: "turbine_representation r = None \<or> (\<exists>s. turbine_representation r = Some s \<and>
      s \<in> set [''actuator'', ''bem'', ''vortex_method'', ''geometry_resolved''])"
    using f by (intro field_nullable_literal_Inr [of d "''turbine_representation''"]) simp
  have l7: "location r = None \<or> (\<exists>s. location r = Some s \<and>
      s \<in> set [''onshore'', ''offshore''])"
    using f by (intro field_nullable_literal_Inr [of d "''location''"]) simp
  have date: "\<And>x. date_validator pd (RDate x) = Inr x"
    by (simp add: date_validator_def)
  show ?thesis
    unfolding model_fields_Inr_iff
    by (intro conjI field_found [OF map_of_model_dump(1)] field_found [OF map_of_model_dump(2)]
        field_found [OF map_of_model_dump(3)] field_found [OF map_of_model_dump(4)]
        field_found [OF map_of_model_dump(5)] field_found [OF map_of_model_dump(6)]
        field_found [OF map_of_model_dump(7)] field_found [OF map_of_model_dump(8)]
        field_found [OF map_of_model_dump(9)] field_found [OF map_of_model_dump(10)]
        field_found [OF map_of_model_dump(11)] field_found [OF map_of_model_dump(12)]
        field_found [OF map_of_model_dump(13)] field_found [OF map_of_model_dump(14)]
        field_found [OF map_of_model_dump(15)] field_found [OF map_of_model_dump(16)]
        field_found [OF map_of_model_dump(17)] field_found [OF map_of_model_dump(18)]
        field_found [OF map_of_model_dump(19)] field_found [OF map_of_model_dump(20)]
        field_found [OF map_of_model_dump(21)] field_found [OF map_of_model_dump(22)]
        str_validator_RStr date literal_validator_member l1 l3 l4 l5
        nullable_literal_dump l6 l7 list_validator_dump Author_validate_dump
        Distribution_validate_dump)
      (simp add: l2 literal_validator_def)
qed

text \<open>
  Claim C7. A record that validation produced, serialised with \<open>model_dump\<close> and validated
  again, yields the same record. Validation is a function of the input mapping alone: two
  inputs that denote the same mapping (the same value under every key, in whatever order
  the keys are stored) have identical results, be it a record or a list of errors.
\<close>

theorem round_trip_and_determinism:
  "(model_validate pd (RDict d) = Inr r \<longrightarrow> model_validate pd (RDict (model_dump r)) = Inr r) \<and>
   (map_of d = map_of d' \<longrightarrow> model_validate pd (RDict d) = model_validate pd (RDict d'))"
proof (intro conjI impI)
  assume "model_validate pd (RDict d) = Inr r"
  then show "model_validate pd (RDict (model_dump r)) = Inr r"
    by (simp add: model_validate_def round_trip_fields)
next
  assume "map_of d = map_of d'"
  then have "model_fields pd d = model_fields pd d'"
    by (intro model_fields_cong) simp
  then show "model_validate pd (RDict d) = model_validate pd (RDict d')"
    by (simp add: model_validate_def)
qed

theorem round_trip_and_determinism_witness:
  "model_validate no_parse (RDict example_input) = Inr example_document \<and>
   model_validate no_parse (RDict (model_dump example_document)) = Inr example_document \<and>
   map_of (rev example_input) = map_of example_input \<and>
   model_validate no_parse (RDict (rev example_input)) = Inr example_document"
proof -
  have a: "model_validate no_parse (RDict example_input) = Inr example_document"
    by (rule example_validates)
  have b: "model_validate no_parse (RDict (model_dump example_document)) = Inr example_document"
    using round_trip_and_determinism [of no_parse example_input example_document] a by blast
  have "distinct (map fst example_input)"
    by (simp add: example_input_def)
  then have c: "map_of (rev example_input) = map_of example_input"
    using map_of_inject_set [of "rev example_input" example_input]
    by (simp add: rev_map [symmetric])
  have d: "model_validate no_parse (RDict (rev example_input)) = Inr example_document"
    using round_trip_and_determinism [of no_parse "rev example_input" _ example_input] a c
    by simp
  show ?thesis
    by (intro conjI a b c d)
qed

subsection \<open>Mutability\<close>



end
